theory Spec2Isabelle
  imports Main "HOL-Library.Sublist"
begin

section \<open>The client (src/client.ts): schema bridge and agent loop\<close>

subsection \<open>Data\<close>

text \<open>
  \<open>SchemaType\<close> is the enumeration of the model SDK that \<open>client.ts\<close> imports; the bridge
  only ever writes its member \<open>OBJECT\<close>.
\<close>

datatype SchemaType = STRING | NUMBER | INTEGER | BOOLEAN | ARRAY | OBJECT

text \<open>
  A tool as \<open>listTools\<close> returns it. The input schema is read through \<open>as any\<close>, so each of
  its three members may be absent (\<open>None\<close> is JavaScript's \<open>undefined\<close>). The schema of one
  parameter is never inspected by the client and stays a type variable.
\<close>

record 's InputSchema =
  schema_type :: "string option"
  schema_properties :: "(string \<times> 's) list option"
  schema_required :: "string list option"

record 's ToolDescriptor =
  tool_name :: string
  tool_description :: "string option"
  inputSchema :: "'s InputSchema"

record 's Parameters =
  param_type :: SchemaType
  param_properties :: "(string \<times> 's) list option"
  param_required :: "string list option"

record 's FunctionDeclaration =
  fd_name :: string
  fd_description :: "string option"
  parameters :: "'s Parameters"

text \<open>One content block of a tool result: \<open>{ type: ..., text: ... }\<close>.\<close>

record ContentBlock =
  block_type :: string
  block_text :: string

record ToolResult =
  content :: "ContentBlock list"

record 'a FunctionCall =
  call_name :: string
  call_args :: 'a

text \<open>
  What the client reads of a model response: \<open>response.functionCalls()\<close>, which is
  \<open>undefined\<close> or an array, and \<open>response.text()\<close>.
\<close>

record 'a ModelResponse =
  functionCalls :: "'a FunctionCall list option"
  response_text :: string

subsection \<open>The schema bridge\<close>

text \<open>The body of \<open>tools.map(tool => ...)\<close>, lines 25 to 33.\<close>

definition toFunctionDeclaration :: "'s ToolDescriptor \<Rightarrow> 's FunctionDeclaration" where
  "toFunctionDeclaration tool =
     \<lparr> fd_name = tool_name tool,
       fd_description = tool_description tool,
       parameters =
         \<lparr> param_type = OBJECT,
           param_properties = schema_properties (inputSchema tool),
           param_required = schema_required (inputSchema tool) \<rparr> \<rparr>"

definition toFunctionDeclarations :: "'s ToolDescriptor list \<Rightarrow> 's FunctionDeclaration list" where
  "toFunctionDeclarations tools = map toFunctionDeclaration tools"

text \<open>
  The data-model invariant that every required parameter name is a key of \<open>properties\<close>;
  an absent member has no names.
\<close>

definition member_list :: "'a list option \<Rightarrow> 'a list" where
  "member_list m = (case m of None \<Rightarrow> [] | Some xs \<Rightarrow> xs)"

definition required_within_properties :: "string list option \<Rightarrow> (string \<times> 's) list option \<Rightarrow> bool" where
  "required_within_properties req props \<longleftrightarrow>
     set (member_list req) \<subseteq> set (map fst (member_list props))"

subsection \<open>The agent loop\<close>

text \<open>
  The collaborators of \<open>runAgent\<close> are the tool transport and the model service. Each call
  either throws (\<open>Inl\<close>, an error of the collaborator's own type \<open>'e\<close>) or returns.
  \<open>sendMessage\<close> is the first \<open>chat.sendMessage(prompt)\<close> of a chat started with the given
  declarations; \<open>sendFunctionResponse\<close> is the second one, carrying the function response.
\<close>

record ('a, 's, 'e) collaborators =
  connect :: "'e option"
  listTools :: "'e + 's ToolDescriptor list"
  sendMessage :: "'s FunctionDeclaration list \<Rightarrow> string \<Rightarrow> 'e + 'a ModelResponse"
  callTool :: "string \<Rightarrow> 'a \<Rightarrow> 'e + ToolResult"
  sendFunctionResponse :: "string \<Rightarrow> ContentBlock list \<Rightarrow> 'e + 'a ModelResponse"

text \<open>The lines \<open>console.log\<close> prints, and the effects of a run in the order they happen.\<close>

datatype 'a console_line =
    UserLine string
  | AgentWantsToCall string 'a
  | AgentLine string

datatype ('a, 's) effect =
    Connect
  | ListTools
  | StartChat "'s FunctionDeclaration list"
  | ConsoleLog "'a console_line"
  | SendMessage string
  | CallTool string 'a
  | SendFunctionResponse string "ContentBlock list"

definition prompt :: string where
  "prompt = ''Is it going to rain in Livermore, CA?''"

text \<open>\<open>result.response.functionCalls()?.[0]\<close>: \<open>undefined\<close> when there is no array or no first element.\<close>

definition first_call :: "'a ModelResponse \<Rightarrow> 'a FunctionCall option" where
  "first_call r =
     (case functionCalls r of
        None \<Rightarrow> None
      | Some [] \<Rightarrow> None
      | Some (c # _) \<Rightarrow> Some c)"

text \<open>
  \<open>runAgent\<close>, lines 10 to 63. The result is the error the returned promise rejects with,
  if any, and the effects performed up to that point.
\<close>

definition runAgent :: "('a, 's, 'e) collaborators \<Rightarrow> 'e option \<times> ('a, 's) effect list" where
  "runAgent c =
     (case connect c of
        Some e \<Rightarrow> (Some e, [Connect])
      | None \<Rightarrow>
     (case listTools c of
        Inl e \<Rightarrow> (Some e, [Connect, ListTools])
      | Inr tools \<Rightarrow>
     (let geminiTools = toFunctionDeclarations tools;
          fx1 = [Connect, ListTools, StartChat geminiTools,
                 ConsoleLog (UserLine prompt), SendMessage prompt]
      in case sendMessage c geminiTools prompt of
        Inl e \<Rightarrow> (Some e, fx1)
      | Inr result \<Rightarrow>
     (case first_call result of
        None \<Rightarrow> (None, fx1)
      | Some call \<Rightarrow>
     (let fx2 = fx1 @ [ConsoleLog (AgentWantsToCall (call_name call) (call_args call)),
                       CallTool (call_name call) (call_args call)]
      in case callTool c (call_name call) (call_args call) of
        Inl e \<Rightarrow> (Some e, fx2)
      | Inr toolResponse \<Rightarrow>
     (let fx3 = fx2 @ [SendFunctionResponse (call_name call) (content toolResponse)]
      in case sendFunctionResponse c (call_name call) (content toolResponse) of
        Inl e \<Rightarrow> (Some e, fx3)
      | Inr finalResponse \<Rightarrow>
          (None, fx3 @ [ConsoleLog (AgentLine (response_text finalResponse))])))))))"

text \<open>The tool calls among the effects of a run, and the answers printed.\<close>

fun tool_calls :: "('a, 's) effect list \<Rightarrow> (string \<times> 'a) list" where
  "tool_calls [] = []"
| "tool_calls (CallTool n a # fx) = (n, a) # tool_calls fx"
| "tool_calls (_ # fx) = tool_calls fx"

fun answers :: "('a, 's) effect list \<Rightarrow> string list" where
  "answers [] = []"
| "answers (ConsoleLog (AgentLine t) # fx) = t # answers fx"
| "answers (_ # fx) = answers fx"

section \<open>The tool provider (the weather server)\<close>

subsection \<open>Strings and the built-ins the server applies to them\<close>

text \<open>
  A string is the list of its UTF-8 bytes. A template literal prints an absent optional
  member as \<open>undefined\<close>.
\<close>

definition NL :: string where
  "NL = [CHR 0x0A]"

definition templ :: "string option \<Rightarrow> string" where
  "templ v = (case v of None \<Rightarrow> ''undefined'' | Some s \<Rightarrow> s)"

text \<open>\<open>Array.prototype.join\<close>.\<close>

fun join :: "string \<Rightarrow> string list \<Rightarrow> string" where
  "join sep [] = []"
| "join sep [x] = x"
| "join sep (x # y # ys) = x @ sep @ join sep (y # ys)"

text \<open>
  \<open>String.prototype.toUpperCase\<close> on ASCII: the letters a to z (codes 97 to 122) move down by
  32, every other byte stays. The case mappings beyond ASCII are not modelled, so the
  definition is the built-in on ASCII strings only.
\<close>

definition toUpperCaseChar :: "char \<Rightarrow> char" where
  "toUpperCaseChar c =
     (let n = (of_char c :: nat) in if 97 \<le> n \<and> n \<le> 122 then char_of (n - 32) else c)"

definition toUpperCase :: "string \<Rightarrow> string" where
  "toUpperCase s = map toUpperCaseChar s"

text \<open>
  \<open>encodeURIComponent\<close> on UTF-8 bytes: the unreserved characters stay, every other byte
  becomes a percent sign and two upper-case hexadecimal digits.
\<close>

definition uriUnreserved :: "char \<Rightarrow> bool" where
  "uriUnreserved c \<longleftrightarrow>
     c \<in> set (''ABCDEFGHIJKLMNOPQRSTUVWXYZ'' @ ''abcdefghijklmnopqrstuvwxyz'' @
              ''0123456789'' @ ''-_.!~*()'' @ [CHR 0x27])"

definition hexDigit :: "nat \<Rightarrow> char" where
  "hexDigit n = ''0123456789ABCDEF'' ! (n mod 16)"

definition percentEncode :: "char \<Rightarrow> string" where
  "percentEncode c =
     (if uriUnreserved c then [c]
      else [CHR ''%'', hexDigit ((of_char c :: nat) div 16), hexDigit (of_char c :: nat)])"

definition encodeURIComponent :: "string \<Rightarrow> string" where
  "encodeURIComponent s = concat (map percentEncode s)"

subsection \<open>External requests\<close>

text \<open>
  One \<open>fetch\<close> either rejects, or resolves to a response with its \<open>ok\<close> flag, its status and
  the value of \<open>response.json()\<close> (\<open>None\<close> when that rejects), read at the type the caller
  casts it to. The external service is a function from the request to such an outcome; every
  call site has its own, so two requests of one run are independent.
\<close>

datatype 'a fetch_outcome = Rejected | Responded bool nat "'a option"

datatype fetch_error = FetchRejected | HttpError nat | JsonRejected

type_synonym headers = "(string \<times> string) list"

type_synonym 'a fetch = "string \<Rightarrow> headers \<Rightarrow> 'a fetch_outcome"

text \<open>What a handler does to the outside: its requests and its \<open>console.error\<close> lines.\<close>

datatype event = Fetch string headers | ConsoleError string fetch_error

fun fetched :: "event list \<Rightarrow> string list" where
  "fetched [] = []"
| "fetched (Fetch url h # evs) = url # fetched evs"
| "fetched (ConsoleError m e # evs) = fetched evs"

definition failed :: "'a fetch_outcome \<Rightarrow> bool" where
  "failed out = (case out of Rejected \<Rightarrow> True | Responded ok status body \<Rightarrow> \<not> ok \<or> body = None)"

definition NWS_API_BASE :: string where
  "NWS_API_BASE = ''https://api.weather.gov''"

definition USER_AGENT :: string where
  "USER_AGENT = ''weather-app/1.0''"

definition NWS_headers :: headers where
  "NWS_headers = [(''User-Agent'', USER_AGENT), (''Accept'', ''application/geo+json'')]"

text \<open>\<open>makeNWSRequest\<close>, lines 17 to 33: every failure is logged and becomes \<open>null\<close>.\<close>

definition makeNWSRequest :: "'a fetch \<Rightarrow> string \<Rightarrow> 'a option \<times> event list" where
  "makeNWSRequest fetch url =
     (case fetch url NWS_headers of
        Rejected \<Rightarrow>
          (None, [Fetch url NWS_headers, ConsoleError ''Error making NWS request:'' FetchRejected])
      | Responded ok status body \<Rightarrow>
          if \<not> ok then
            (None, [Fetch url NWS_headers,
                    ConsoleError ''Error making NWS request:'' (HttpError status)])
          else (case body of
                  None \<Rightarrow>
                    (None, [Fetch url NWS_headers,
                            ConsoleError ''Error making NWS request:'' JsonRejected])
                | Some v \<Rightarrow> (Some v, [Fetch url NWS_headers])))"

record GeocodingResult =
  lat :: string
  lon :: string
  display_name :: string

definition geocodingUrl :: "string \<Rightarrow> string \<Rightarrow> string" where
  "geocodingUrl city state =
     ''https://nominatim.openstreetmap.org/search?q='' @ encodeURIComponent city @ '','' @
     encodeURIComponent state @ ''&format=json&limit=1''"

definition geocoding_headers :: headers where
  "geocoding_headers = [(''User-Agent'', USER_AGENT)]"

text \<open>
  \<open>getCoordinates\<close>, lines 42 to 62. The parsed body is the array, or \<open>None\<close> for a falsy
  value, which \<open>data && ...\<close> guards against.
\<close>

definition getCoordinates ::
    "GeocodingResult list option fetch \<Rightarrow> string \<Rightarrow> string \<Rightarrow> GeocodingResult option \<times> event list" where
  "getCoordinates fetch city state =
     (let url = geocodingUrl city state in
      case fetch url geocoding_headers of
        Rejected \<Rightarrow>
          (None, [Fetch url geocoding_headers,
                  ConsoleError ''Error fetching coordinates:'' FetchRejected])
      | Responded ok status body \<Rightarrow>
          if \<not> ok then
            (None, [Fetch url geocoding_headers,
                    ConsoleError ''Error fetching coordinates:'' (HttpError status)])
          else (case body of
                  None \<Rightarrow>
                    (None, [Fetch url geocoding_headers,
                            ConsoleError ''Error fetching coordinates:'' JsonRejected])
                | Some data \<Rightarrow>
                    (case data of
                       Some (r # rs) \<Rightarrow> (Some r, [Fetch url geocoding_headers])
                     | _ \<Rightarrow> (None, [Fetch url geocoding_headers]))))"

subsection \<open>The interfaces of the responses\<close>

text \<open>
  The members the interfaces mark optional are options. So are the members the handlers
  guard with \<open>?.\<close> or \<open>|| []\<close> although the interface declares them present. A number is a
  value of a type variable: the handlers only print it.
\<close>

record AlertProperties =
  event :: "string option"
  areaDesc :: "string option"
  severity :: "string option"
  status :: "string option"
  headline :: "string option"

record AlertFeature =
  alert_properties :: AlertProperties

record AlertsResponse =
  features :: "AlertFeature list option"

record 'n ForecastPeriod =
  period_name :: "string option"
  temperature :: "'n option"
  temperatureUnit :: "string option"
  windSpeed :: "string option"
  windDirection :: "string option"
  shortForecast :: "string option"

record PointsProperties =
  forecast :: "string option"

record PointsResponse =
  points_properties :: "PointsProperties option"

record 'n ForecastProperties =
  periods :: "'n ForecastPeriod list option"

record 'n ForecastResponse =
  forecast_properties :: "'n ForecastProperties option"

subsection \<open>The three tools\<close>

text \<open>The result every return statement of the handlers builds: one block of type text.\<close>

definition text_result :: "string \<Rightarrow> ToolResult" where
  "text_result t = \<lparr> content = [\<lparr> block_type = ''text'', block_text = t \<rparr>] \<rparr>"

text \<open>The handler of \<open>get_coordinates\<close>, lines 111 to 127.\<close>

definition get_coordinates ::
    "GeocodingResult list option fetch \<Rightarrow> string \<Rightarrow> string \<Rightarrow> ToolResult \<times> event list" where
  "get_coordinates fetch city state =
     (case getCoordinates fetch city state of
        (None, evs) \<Rightarrow>
          (text_result (''Could not find coordinates for '' @ city @ '', '' @ state @ ''.''), evs)
      | (Some coords, evs) \<Rightarrow>
          (text_result (''Location: '' @ display_name coords @ NL @
                        ''Latitude: '' @ lat coords @ NL @
                        ''Longitude: '' @ lon coords), evs))"

text \<open>The handler of \<open>get_alerts\<close>, lines 137 to 158.\<close>

definition alertsUrl :: "string \<Rightarrow> string" where
  "alertsUrl stateCode = NWS_API_BASE @ ''/alerts?area='' @ stateCode"

definition formatAlert :: "AlertFeature \<Rightarrow> string" where
  "formatAlert f =
     ''Event: '' @ templ (event (alert_properties f)) @ NL @
     ''Severity: '' @ templ (severity (alert_properties f)) @ NL @
     ''Headline: '' @ templ (headline (alert_properties f)) @ NL @ ''---''"

definition get_alerts :: "AlertsResponse fetch \<Rightarrow> string \<Rightarrow> ToolResult \<times> event list" where
  "get_alerts fetch state =
     (let stateCode = toUpperCase state in
      case makeNWSRequest fetch (alertsUrl stateCode) of
        (None, evs) \<Rightarrow> (text_result ''Failed to retrieve alerts data'', evs)
      | (Some alertsData, evs) \<Rightarrow>
          (let fs = (case features alertsData of None \<Rightarrow> [] | Some fs \<Rightarrow> fs) in
           if length fs = 0 then (text_result (''No active alerts for '' @ stateCode), evs)
           else
             (text_result (''Active alerts for '' @ stateCode @ '':'' @ NL @ NL @
                           join NL (map formatAlert fs)), evs)))"

text \<open>
  The handler of \<open>get_forecast\<close>, lines 169 to 196. \<open>toFixed\<close> and \<open>numToString\<close> stand for
  \<open>Number.prototype.toFixed\<close> and for the printing of a number in a template literal.
  The degree mark is the four bytes the source file has between the temperature and its unit.
\<close>

definition degreeMark :: string where
  "degreeMark = [CHR 0xC3, CHR 0x82, CHR 0xC2, CHR 0xB0]"

definition pointsUrl :: "('n \<Rightarrow> nat \<Rightarrow> string) \<Rightarrow> 'n \<Rightarrow> 'n \<Rightarrow> string" where
  "pointsUrl toFixed latitude longitude =
     NWS_API_BASE @ ''/points/'' @ toFixed latitude 4 @ '','' @ toFixed longitude 4"

text \<open>\<open>pointsData?.properties?.forecast\<close>: \<open>undefined\<close> as soon as one link is absent.\<close>

definition forecastLocator :: "PointsResponse option \<Rightarrow> string option" where
  "forecastLocator pointsData =
     (case pointsData of
        None \<Rightarrow> None
      | Some d \<Rightarrow> (case points_properties d of None \<Rightarrow> None | Some p \<Rightarrow> forecast p))"

definition noForecastUrl :: ToolResult where
  "noForecastUrl = text_result ''Failed to get forecast URL. Location might be outside US.''"

text \<open>\<open>forecastData?.properties?.periods || []\<close>.\<close>

definition forecastPeriods :: "'n ForecastResponse option \<Rightarrow> 'n ForecastPeriod list" where
  "forecastPeriods forecastData =
     (case forecastData of
        None \<Rightarrow> []
      | Some d \<Rightarrow>
          (case forecast_properties d of
             None \<Rightarrow> []
           | Some p \<Rightarrow> (case periods p of None \<Rightarrow> [] | Some ps \<Rightarrow> ps)))"

definition formatPeriod :: "('n \<Rightarrow> string) \<Rightarrow> 'n ForecastPeriod \<Rightarrow> string" where
  "formatPeriod numToString period =
     templ (period_name period) @ '': '' @ templ (map_option numToString (temperature period)) @
     degreeMark @ templ (temperatureUnit period) @ '' - '' @ templ (shortForecast period)"

text \<open>
  The test \<open>!pointsData?.properties?.forecast\<close> holds when the locator is absent and when it
  is the empty string, which is falsy.
\<close>

definition get_forecast ::
    "('n \<Rightarrow> nat \<Rightarrow> string) \<Rightarrow> ('n \<Rightarrow> string) \<Rightarrow> PointsResponse fetch \<Rightarrow> 'n ForecastResponse fetch \<Rightarrow>
     'n \<Rightarrow> 'n \<Rightarrow> ToolResult \<times> event list" where
  "get_forecast toFixed numToString fetchPoints fetchForecast latitude longitude =
     (case makeNWSRequest fetchPoints (pointsUrl toFixed latitude longitude) of
        (pointsData, evs1) \<Rightarrow>
          (case forecastLocator pointsData of
             None \<Rightarrow> (noForecastUrl, evs1)
           | Some url \<Rightarrow>
               if url = [] then (noForecastUrl, evs1)
               else
                 (case makeNWSRequest fetchForecast url of
                    (forecastData, evs2) \<Rightarrow>
                      (let ps = forecastPeriods forecastData in
                       if length ps = 0 then
                         (text_result ''No forecast periods available'', evs1 @ evs2)
                       else
                         (text_result (''Forecast for '' @ numToString latitude @ '', '' @
                                       numToString longitude @ '':'' @ NL @ NL @
                                       join NL (map (formatPeriod numToString) ps)),
                          evs1 @ evs2)))))"

subsection \<open>Letters and their casing\<close>






section \<open>Concrete runs\<close>

text \<open>
  The three tools the server registers (lines 104 to 110, 131 to 136 and 162 to 168), as
  \<open>listTools\<close> describes them; the schema of a parameter is reduced to its type name.
\<close>

definition weather_tools :: "string ToolDescriptor list" where
  "weather_tools =
     [\<lparr> tool_name = ''get_coordinates'',
        tool_description =
          Some ''Get latitude and longitude for a city. Use this BEFORE getting a forecast.'',
        inputSchema =
          \<lparr> schema_type = Some ''object'',
            schema_properties = Some [(''city'', ''string''), (''state'', ''string'')],
            schema_required = Some [''city'', ''state''] \<rparr> \<rparr>,
      \<lparr> tool_name = ''get_alerts'',
        tool_description = Some ''Get weather alerts for a state'',
        inputSchema =
          \<lparr> schema_type = Some ''object'',
            schema_properties = Some [(''state'', ''string'')],
            schema_required = Some [''state''] \<rparr> \<rparr>,
      \<lparr> tool_name = ''get_forecast'',
        tool_description =
          Some ''Get weather forecast for a location (requires latitude/longitude)'',
        inputSchema =
          \<lparr> schema_type = Some ''object'',
            schema_properties = Some [(''latitude'', ''number''), (''longitude'', ''number'')],
            schema_required = Some [''latitude'', ''longitude''] \<rparr> \<rparr>]"

text \<open>
  A run in which the model asks for a tool that was never discovered, and the transport
  answers the call with a text of its own.
\<close>

definition tides_call :: "(string \<times> string) list FunctionCall" where
  "tides_call = \<lparr> call_name = ''get_tides'', call_args = [(''state'', ''CA'')] \<rparr>"

definition unknown_tool_run :: "((string \<times> string) list, string, string) collaborators" where
  "unknown_tool_run =
     \<lparr> connect = None,
       listTools = Inr weather_tools,
       sendMessage = (\<lambda>decls p. Inr \<lparr> functionCalls = Some [tides_call], response_text = [] \<rparr>),
       callTool = (\<lambda>n a. Inr \<lparr> content = [\<lparr> block_type = ''text'', block_text = ''Tool get_tides not found'' \<rparr>] \<rparr>),
       sendFunctionResponse =
         (\<lambda>n c. Inr \<lparr> functionCalls = None, response_text = ''I cannot look up tides.'' \<rparr>) \<rparr>"

text \<open>A run in which the model answers the prompt in plain text, with no function call.\<close>

definition plain_answer_run :: "((string \<times> string) list, string, string) collaborators" where
  "plain_answer_run =
     \<lparr> connect = None,
       listTools = Inr weather_tools,
       sendMessage =
         (\<lambda>decls p. Inr \<lparr> functionCalls = None, response_text = ''No rain is expected in Livermore.'' \<rparr>),
       callTool = (\<lambda>n a. Inl ''not called''),
       sendFunctionResponse = (\<lambda>n c. Inl ''not called'') \<rparr>"

text \<open>
  A tool whose schema breaks the invariant: it requires a name that is no key of its
  properties, and it has no description.
\<close>

definition unchecked_tool :: "string ToolDescriptor" where
  "unchecked_tool =
     \<lparr> tool_name = ''get_tides'',
       tool_description = None,
       inputSchema =
         \<lparr> schema_type = None,
           schema_properties = Some [(''state'', ''string'')],
           schema_required = Some [''state'', ''station''] \<rparr> \<rparr>"

text \<open>Outcomes of the external services used below.\<close>

definition geocoding_no_match :: "GeocodingResult list option fetch" where
  "geocoding_no_match = (\<lambda>url h. Responded True 200 (Some (Some [])))"

definition alerts_unreachable :: "AlertsResponse fetch" where
  "alerts_unreachable = (\<lambda>url h. Rejected)"

definition alerts_none_active :: "AlertsResponse fetch" where
  "alerts_none_active = (\<lambda>url h. Responded True 200 (Some \<lparr> features = Some [] \<rparr>))"

definition points_outside_coverage :: "PointsResponse fetch" where
  "points_outside_coverage = (\<lambda>url h. Responded False 404 None)"

definition points_with_locator :: "PointsResponse fetch" where
  "points_with_locator =
     (\<lambda>url h. Responded True 200
        (Some \<lparr> points_properties =
                  Some \<lparr> forecast = Some ''https://api.weather.gov/gridpoints/MTR/99,105/forecast'' \<rparr> \<rparr>))"

definition forecast_unreachable :: "int ForecastResponse fetch" where
  "forecast_unreachable = (\<lambda>url h. Responded False 503 None)"

definition forecast_no_periods :: "int ForecastResponse fetch" where
  "forecast_no_periods =
     (\<lambda>url h. Responded True 200 (Some \<lparr> forecast_properties = Some \<lparr> periods = Some [] \<rparr> \<rparr>))"

text \<open>Printers of whole numbers, enough to run \<open>get_forecast\<close> at the coordinates 38 and -122.\<close>

definition showDigits :: "int \<Rightarrow> string" where
  "showDigits n = (if n = 38 then ''38'' else if n = - 122 then ''-122'' else ''0'')"

definition showFixed :: "int \<Rightarrow> nat \<Rightarrow> string" where
  "showFixed n k = showDigits n @ ''.'' @ replicate k (CHR ''0'')"

section \<open>Properties of the schema bridge\<close>

lemma toFunctionDeclarations_nth:
  "i < length tools \<Longrightarrow> toFunctionDeclarations tools ! i = toFunctionDeclaration (tools ! i)"
  by (simp add: toFunctionDeclarations_def)

text \<open>
  Claim C1. For every sequence of tools, the bridge returns as many declarations as it is
  given tools, and the declaration at each position has the name and the description of the
  tool at that position. Where the required names of a tool are keys of its properties, the
  required names of its declaration are keys of the declaration's properties.
\<close>
theorem toFunctionDeclarations_mirrors_tools:
  "length (toFunctionDeclarations tools) = length tools \<and>
   (\<forall>i < length tools.
      fd_name (toFunctionDeclarations tools ! i) = tool_name (tools ! i) \<and>
      fd_description (toFunctionDeclarations tools ! i) = tool_description (tools ! i) \<and>
      (required_within_properties (schema_required (inputSchema (tools ! i)))
                                  (schema_properties (inputSchema (tools ! i))) \<longrightarrow>
       required_within_properties
         (param_required (parameters (toFunctionDeclarations tools ! i)))
         (param_properties (parameters (toFunctionDeclarations tools ! i)))))"
proof (intro conjI allI impI)
  show "length (toFunctionDeclarations tools) = length tools"
    by (simp add: toFunctionDeclarations_def)
next
  fix i assume i: "i < length tools"
  then have d: "toFunctionDeclarations tools ! i = toFunctionDeclaration (tools ! i)"
    by (rule toFunctionDeclarations_nth)
  show "fd_name (toFunctionDeclarations tools ! i) = tool_name (tools ! i)"
    by (simp add: d toFunctionDeclaration_def)
  show "fd_description (toFunctionDeclarations tools ! i) = tool_description (tools ! i)"
    by (simp add: d toFunctionDeclaration_def)
  assume "required_within_properties (schema_required (inputSchema (tools ! i)))
                                     (schema_properties (inputSchema (tools ! i)))"
  then show "required_within_properties
               (param_required (parameters (toFunctionDeclarations tools ! i)))
               (param_properties (parameters (toFunctionDeclarations tools ! i)))"
    by (simp add: d toFunctionDeclaration_def)
qed

text \<open>
  The three tools of the weather server followed by a tool that breaks the invariant: all
  four are mirrored, and the declaration of \<open>get_alerts\<close>, whose schema satisfies the
  invariant, satisfies it too.
\<close>
theorem toFunctionDeclarations_mirrors_tools_witness:
  "required_within_properties (schema_required (inputSchema ((weather_tools @ [unchecked_tool]) ! 1)))
                              (schema_properties (inputSchema ((weather_tools @ [unchecked_tool]) ! 1))) \<and>
   length (toFunctionDeclarations (weather_tools @ [unchecked_tool])) = 4 \<and>
   fd_name (toFunctionDeclarations (weather_tools @ [unchecked_tool]) ! 1) = ''get_alerts'' \<and>
   fd_description (toFunctionDeclarations (weather_tools @ [unchecked_tool]) ! 1) =
     Some ''Get weather alerts for a state'' \<and>
   required_within_properties
     (param_required (parameters (toFunctionDeclarations (weather_tools @ [unchecked_tool]) ! 1)))
     (param_properties (parameters (toFunctionDeclarations (weather_tools @ [unchecked_tool]) ! 1))) \<and>
   fd_name (toFunctionDeclarations (weather_tools @ [unchecked_tool]) ! 3) = ''get_tides'' \<and>
   fd_description (toFunctionDeclarations (weather_tools @ [unchecked_tool]) ! 3) = None \<and>
   \<not> required_within_properties (schema_required (inputSchema unchecked_tool))
                                (schema_properties (inputSchema unchecked_tool))"
proof -
  have broken: "\<not> required_within_properties (schema_required (inputSchema unchecked_tool))
                                             (schema_properties (inputSchema unchecked_tool))"
    by code_simp
  let ?tools = "weather_tools @ [unchecked_tool]"
  have inv: "required_within_properties (schema_required (inputSchema (?tools ! 1)))
                                        (schema_properties (inputSchema (?tools ! 1)))"
    by code_simp
  have len: "length ?tools = 4" and one: "(1::nat) < length ?tools" and three: "(3::nat) < length ?tools"
    by (simp_all add: weather_tools_def)
  have t1: "tool_name (?tools ! 1) = ''get_alerts''"
    and d1: "tool_description (?tools ! 1) = Some ''Get weather alerts for a state''"
    by (simp_all add: weather_tools_def)
  have t3: "tool_name (?tools ! 3) = ''get_tides''" and d3: "tool_description (?tools ! 3) = None"
    by (simp_all add: weather_tools_def unchecked_tool_def)
  from toFunctionDeclarations_mirrors_tools [of ?tools] inv one three len t1 d1 t3 d3 broken
  show ?thesis
    by metis
qed

text \<open>
  Claim C2. The top-level type of every declaration is \<open>OBJECT\<close>, and the type tag of the
  source schema has no influence: replacing the tag of each tool by any other, or by none,
  leaves the declarations unchanged.
\<close>
theorem bridge_type_is_object:
  "map (\<lambda>d. param_type (parameters d)) (toFunctionDeclarations tools) =
     replicate (length tools) OBJECT \<and>
   toFunctionDeclarations
     (map (\<lambda>t. t\<lparr>inputSchema := (inputSchema t)\<lparr>schema_type := tag t\<rparr>\<rparr>) tools) =
     toFunctionDeclarations tools"
  by (induction tools) (simp_all add: toFunctionDeclarations_def toFunctionDeclaration_def)


section \<open>Properties of the agent loop\<close>

text \<open>
  The loop does not look the requested name up. In the run below the model asks for
  \<open>get_tides\<close>, which is not among the discovered tools; the call goes to the transport
  and the run ends without a failure.
\<close>
theorem unknown_tool_is_called:
  "''get_tides'' \<notin> set (map tool_name weather_tools) \<and>
   listTools unknown_tool_run = Inr weather_tools \<and>
   fst (runAgent unknown_tool_run) = None \<and>
   tool_calls (snd (runAgent unknown_tool_run)) = [(''get_tides'', [(''state'', ''CA'')])]"
  by (simp add: runAgent_def unknown_tool_run_def first_call_def tides_call_def weather_tools_def)

text \<open>
  Claim C3, as the code has it. Whenever the first model response requests a call, whether
  or not the name is among the discovered tools, the loop issues exactly one \<open>callTool\<close>, for
  that name with the model's arguments; it fails only with an error thrown by the transport
  or by the model service, and has no unknown-tool failure of its own.
\<close>
theorem requested_tool_is_called:
  assumes "connect c = None"
    and "listTools c = Inr tools"
    and "sendMessage c (toFunctionDeclarations tools) prompt = Inr result"
    and "first_call result = Some call"
  shows "tool_calls (snd (runAgent c)) = [(call_name call, call_args call)] \<and>
         fst (runAgent c) =
           (case callTool c (call_name call) (call_args call) of
              Inl e \<Rightarrow> Some e
            | Inr toolResponse \<Rightarrow>
                (case sendFunctionResponse c (call_name call) (content toolResponse) of
                   Inl e \<Rightarrow> Some e
                 | Inr finalResponse \<Rightarrow> None))"
  using assms by (simp add: runAgent_def split: sum.split)

text \<open>The run with the undiscovered tool \<open>get_tides\<close> is an instance.\<close>
theorem requested_tool_is_called_witness:
  "connect unknown_tool_run = None \<and>
   listTools unknown_tool_run = Inr weather_tools \<and>
   first_call \<lparr> functionCalls = Some [tides_call], response_text = [] \<rparr> = Some tides_call \<and>
   call_name tides_call \<notin> set (map tool_name weather_tools) \<and>
   tool_calls (snd (runAgent unknown_tool_run)) = [(call_name tides_call, call_args tides_call)]"
proof -
  have c: "connect unknown_tool_run = None"
    and l: "listTools unknown_tool_run = Inr weather_tools"
    and s: "sendMessage unknown_tool_run (toFunctionDeclarations weather_tools) prompt =
              Inr \<lparr> functionCalls = Some [tides_call], response_text = [] \<rparr>"
    by (simp_all add: unknown_tool_run_def)
  have f: "first_call \<lparr> functionCalls = Some [tides_call], response_text = [] \<rparr> = Some tides_call"
    by (simp add: first_call_def)
  have n: "call_name tides_call \<notin> set (map tool_name weather_tools)"
    by (simp add: tides_call_def weather_tools_def)
  from requested_tool_is_called [OF c l s f] c l f n show ?thesis
    by simp
qed

text \<open>
  Claim C4 at a concrete run. The model answers in plain text with no function call. The
  loop ends at once, after the prompt was sent, but it prints no answer: the text of the
  response is never read. Only the branch that calls a tool prints an \<open>Agent:\<close> line.
\<close>
theorem plain_answer_is_dropped:
  "first_call \<lparr> functionCalls = None, response_text = ''No rain is expected in Livermore.'' \<rparr> = None \<and>
   runAgent plain_answer_run =
     (None, [Connect, ListTools, StartChat (toFunctionDeclarations weather_tools),
             ConsoleLog (UserLine prompt), SendMessage prompt]) \<and>
   answers (snd (runAgent plain_answer_run)) = []"
  by (simp add: runAgent_def plain_answer_run_def first_call_def)

text \<open>In general, a first response without a call ends the run right after the prompt.\<close>
lemma runAgent_without_call:
  assumes "connect c = None"
    and "listTools c = Inr tools"
    and "sendMessage c (toFunctionDeclarations tools) prompt = Inr result"
    and "first_call result = None"
  shows "runAgent c =
           (None, [Connect, ListTools, StartChat (toFunctionDeclarations tools),
                   ConsoleLog (UserLine prompt), SendMessage prompt])"
  using assms by (simp add: runAgent_def)

section \<open>Properties of the external requests\<close>

lemma makeNWSRequest_fetched: "fetched (snd (makeNWSRequest fetch url)) = [url]"
  by (simp add: makeNWSRequest_def split: fetch_outcome.split option.split)

lemma makeNWSRequest_failed:
  "failed (fetch url NWS_headers) \<Longrightarrow> fst (makeNWSRequest fetch url) = None"
  by (auto simp add: makeNWSRequest_def failed_def split: fetch_outcome.splits option.splits)

lemma makeNWSRequest_responded:
  "fetch url NWS_headers = Responded True st (Some d) \<Longrightarrow>
   makeNWSRequest fetch url = (Some d, [Fetch url NWS_headers])"
  by (simp add: makeNWSRequest_def)

lemma getCoordinates_fetched:
  "fetched (snd (getCoordinates fetch city state)) = [geocodingUrl city state]"
  by (simp add: getCoordinates_def Let_def split: fetch_outcome.split option.split list.split)

lemma getCoordinates_failed:
  "failed (fetch (geocodingUrl city state) geocoding_headers) \<Longrightarrow>
   fst (getCoordinates fetch city state) = None"
  by (auto simp add: getCoordinates_def failed_def Let_def split: fetch_outcome.splits option.splits)

lemma getCoordinates_no_match:
  "fetch (geocodingUrl city state) geocoding_headers = Responded True st (Some data) \<Longrightarrow>
   member_list data = [] \<Longrightarrow> fst (getCoordinates fetch city state) = None"
  by (auto simp add: getCoordinates_def member_list_def Let_def split: option.splits list.splits)

section \<open>Properties of the tools\<close>

text \<open>
  Claim C5. When the points lookup fails, or succeeds with a response that has no forecast
  locator (an absent link or an empty string), \<open>get_forecast\<close> returns the text saying that
  the location might be outside the covered country, and the points lookup is the only
  request it makes.
\<close>
theorem get_forecast_without_locator:
  assumes "failed (fetchPoints (pointsUrl toFixed latitude longitude) NWS_headers) \<or>
           (\<exists>st d. fetchPoints (pointsUrl toFixed latitude longitude) NWS_headers =
                      Responded True st (Some d) \<and>
                    (forecastLocator (Some d) = None \<or> forecastLocator (Some d) = Some []))"
  shows "fst (get_forecast toFixed numToString fetchPoints fetchForecast latitude longitude) =
           text_result ''Failed to get forecast URL. Location might be outside US.'' \<and>
         fetched (snd (get_forecast toFixed numToString fetchPoints fetchForecast latitude longitude)) =
           [pointsUrl toFixed latitude longitude]"
proof -
  let ?url = "pointsUrl toFixed latitude longitude"
  obtain pointsData evs where m: "makeNWSRequest fetchPoints ?url = (pointsData, evs)"
    by (cases "makeNWSRequest fetchPoints ?url")
  have evs: "fetched evs = [?url]"
    using makeNWSRequest_fetched [of fetchPoints ?url] m by simp
  from assms have "forecastLocator pointsData = None \<or> forecastLocator pointsData = Some []"
  proof
    assume "failed (fetchPoints ?url NWS_headers)"
    then have "pointsData = None"
      using makeNWSRequest_failed [of fetchPoints ?url] m by simp
    then show ?thesis by (simp add: forecastLocator_def)
  next
    assume "\<exists>st d. fetchPoints ?url NWS_headers = Responded True st (Some d) \<and>
                    (forecastLocator (Some d) = None \<or> forecastLocator (Some d) = Some [])"
    then obtain st d where r: "fetchPoints ?url NWS_headers = Responded True st (Some d)"
      and l: "forecastLocator (Some d) = None \<or> forecastLocator (Some d) = Some []"
      by blast
    from makeNWSRequest_responded [of fetchPoints ?url st d] r m have "pointsData = Some d" by simp
    with l show ?thesis by simp
  qed
  then show ?thesis
    using m evs by (auto simp add: get_forecast_def noForecastUrl_def)
qed

text \<open>A points lookup answered with status 404.\<close>
theorem get_forecast_without_locator_witness:
  "failed (points_outside_coverage (pointsUrl showFixed 38 (- 122)) NWS_headers) \<and>
   fst (get_forecast showFixed showDigits points_outside_coverage forecast_no_periods 38 (- 122)) =
     text_result ''Failed to get forecast URL. Location might be outside US.'' \<and>
   fetched (snd (get_forecast showFixed showDigits points_outside_coverage forecast_no_periods 38 (- 122))) =
     [''https://api.weather.gov/points/38.0000,-122.0000'']"
proof -
  have f: "failed (points_outside_coverage (pointsUrl showFixed 38 (- 122)) NWS_headers)"
    by (simp add: failed_def points_outside_coverage_def)
  have u: "pointsUrl showFixed 38 (- 122) = ''https://api.weather.gov/points/38.0000,-122.0000''"
    by (simp add: pointsUrl_def showFixed_def showDigits_def NWS_API_BASE_def eval_nat_numeral)
  from get_forecast_without_locator
         [where fetchPoints = points_outside_coverage and toFixed = showFixed and latitude = 38
            and longitude = "- 122" and numToString = showDigits
            and fetchForecast = forecast_no_periods] f u
  show ?thesis by simp
qed

text \<open>
  Claim C6. For every state code, when the alerts request fails the tool answers
  \<open>Failed to retrieve alerts data\<close>, when it succeeds with no features (an empty or absent
  array) the tool answers \<open>No active alerts for\<close> followed by the upper-cased code, and the
  two texts differ.
\<close>
theorem get_alerts_failure_differs_from_empty:
  assumes down: "failed (fetchDown (alertsUrl (toUpperCase state)) NWS_headers)"
    and up: "fetchUp (alertsUrl (toUpperCase state)) NWS_headers = Responded True st (Some d)"
    and none: "features d = None \<or> features d = Some []"
  shows "fst (get_alerts fetchDown state) = text_result ''Failed to retrieve alerts data'' \<and>
         fst (get_alerts fetchUp state) = text_result (''No active alerts for '' @ toUpperCase state) \<and>
         map block_text (content (fst (get_alerts fetchDown state))) \<noteq>
         map block_text (content (fst (get_alerts fetchUp state)))"
proof -
  let ?url = "alertsUrl (toUpperCase state)"
  obtain evs where "makeNWSRequest fetchDown ?url = (None, evs)"
    using makeNWSRequest_failed [of fetchDown ?url] down
    by (cases "makeNWSRequest fetchDown ?url") simp
  then have 1: "fst (get_alerts fetchDown state) = text_result ''Failed to retrieve alerts data''"
    by (simp add: get_alerts_def Let_def)
  from makeNWSRequest_responded [of fetchUp ?url st d] up none
  have 2: "fst (get_alerts fetchUp state) = text_result (''No active alerts for '' @ toUpperCase state)"
    by (auto simp add: get_alerts_def Let_def)
  from 1 2 show ?thesis
    by (simp add: text_result_def)
qed

text \<open>The state \<open>ca\<close>, once with the service unreachable and once with no alert.\<close>
theorem get_alerts_failure_differs_from_empty_witness:
  "failed (alerts_unreachable (alertsUrl (toUpperCase ''ca'')) NWS_headers) \<and>
   block_text (hd (content (fst (get_alerts alerts_unreachable ''ca'')))) = ''Failed to retrieve alerts data'' \<and>
   block_text (hd (content (fst (get_alerts alerts_none_active ''ca'')))) = ''No active alerts for CA''"
proof -
  have down: "failed (alerts_unreachable (alertsUrl (toUpperCase ''ca'')) NWS_headers)"
    by (simp add: failed_def alerts_unreachable_def)
  have up: "alerts_none_active (alertsUrl (toUpperCase ''ca'')) NWS_headers =
              Responded True 200 (Some \<lparr> features = Some [] \<rparr>)"
    by (simp add: alerts_none_active_def)
  have u: "toUpperCase ''ca'' = ''CA''"
    by (simp add: toUpperCase_def toUpperCaseChar_def char_of_eq_iff)
  from get_alerts_failure_differs_from_empty
         [where fetchDown = alerts_unreachable and fetchUp = alerts_none_active
            and state = "''ca''" and st = 200 and d = "\<lparr> features = Some [] \<rparr>"]
       down up u
  show ?thesis
    by (simp add: text_result_def)
qed

text \<open>
  Claim C8. When the geocoding request fails, or succeeds with no match (an empty array or a
  falsy body), \<open>get_coordinates\<close> returns a text result and throws nothing. The text is built
  from fixed words and the two arguments alone, so it contains the queried city and state
  and nothing taken from a response; the request is the only one made.
\<close>
theorem get_coordinates_not_found:
  assumes "failed (fetch (geocodingUrl city state) geocoding_headers) \<or>
           (\<exists>st data. fetch (geocodingUrl city state) geocoding_headers =
                         Responded True st (Some data) \<and> member_list data = [])"
  shows "fst (get_coordinates fetch city state) =
           text_result (''Could not find coordinates for '' @ city @ '', '' @ state @ ''.'') \<and>
         sublist city (block_text (hd (content (fst (get_coordinates fetch city state))))) \<and>
         sublist state (block_text (hd (content (fst (get_coordinates fetch city state))))) \<and>
         fetched (snd (get_coordinates fetch city state)) = [geocodingUrl city state]"
proof -
  obtain coords evs where g: "getCoordinates fetch city state = (coords, evs)"
    by (cases "getCoordinates fetch city state")
  from assms have "fst (getCoordinates fetch city state) = None"
    using getCoordinates_failed [of fetch city state]
      getCoordinates_no_match [of fetch city state] by blast
  with g have n: "coords = None" by simp
  from getCoordinates_fetched [of fetch city state] g have e: "fetched evs = [geocodingUrl city state]"
    by simp
  have r: "get_coordinates fetch city state =
             (text_result (''Could not find coordinates for '' @ city @ '', '' @ state @ ''.''), evs)"
    using g n by (simp add: get_coordinates_def)
  have c: "sublist city (''Could not find coordinates for '' @ city @ ('', '' @ state @ ''.''))"
    by (rule sublist_appendI)
  have s: "sublist state ((''Could not find coordinates for '' @ city @ '', '') @ state @ ''.'')"
    by (rule sublist_appendI)
  from r e c s show ?thesis
    by (simp add: text_result_def)
qed

text \<open>A lookup of Atlantis, ZZ answered with an empty array.\<close>
theorem get_coordinates_not_found_witness:
  "geocoding_no_match (geocodingUrl ''Atlantis'' ''ZZ'') geocoding_headers =
     Responded True 200 (Some (Some [])) \<and>
   fst (get_coordinates geocoding_no_match ''Atlantis'' ''ZZ'') =
     text_result ''Could not find coordinates for Atlantis, ZZ.'' \<and>
   sublist ''Atlantis'' (block_text (hd (content (fst (get_coordinates geocoding_no_match ''Atlantis'' ''ZZ''))))) \<and>
   sublist ''ZZ'' (block_text (hd (content (fst (get_coordinates geocoding_no_match ''Atlantis'' ''ZZ'')))))"
proof -
  have o: "geocoding_no_match (geocodingUrl ''Atlantis'' ''ZZ'') geocoding_headers =
             Responded True 200 (Some (Some []))"
    by (simp add: geocoding_no_match_def)
  have m: "member_list (Some ([] :: GeocodingResult list)) = []"
    by (simp add: member_list_def)
  from o m have h: "failed (geocoding_no_match (geocodingUrl ''Atlantis'' ''ZZ'') geocoding_headers) \<or>
           (\<exists>st data. geocoding_no_match (geocodingUrl ''Atlantis'' ''ZZ'') geocoding_headers =
                         Responded True st (Some data) \<and> member_list data = [])"
    by blast
  note t = get_coordinates_not_found
         [where fetch = geocoding_no_match and city = "''Atlantis''" and state = "''ZZ''", OF h]
  from t have a: "fst (get_coordinates geocoding_no_match ''Atlantis'' ''ZZ'') =
                    text_result ''Could not find coordinates for Atlantis, ZZ.''"
    by simp
  from t o a show ?thesis
    by blast
qed

text \<open>
  Claim C9. When the points lookup yields a non-empty forecast locator and the request to
  that locator fails, \<open>get_forecast\<close> returns \<open>No forecast periods available\<close>, the very
  result it returns when that request succeeds with no periods.
\<close>
theorem get_forecast_second_stage_failure:
  assumes points: "fetchPoints (pointsUrl toFixed latitude longitude) NWS_headers =
                     Responded True st (Some d)"
    and locator: "forecastLocator (Some d) = Some url" "url \<noteq> []"
    and down: "failed (fetchDown url NWS_headers)"
    and up: "fetchUp url NWS_headers = Responded True st' (Some fd)"
    and empty: "forecastPeriods (Some fd) = []"
  shows "fst (get_forecast toFixed numToString fetchPoints fetchDown latitude longitude) =
           text_result ''No forecast periods available'' \<and>
         fst (get_forecast toFixed numToString fetchPoints fetchUp latitude longitude) =
           fst (get_forecast toFixed numToString fetchPoints fetchDown latitude longitude) \<and>
         fetched (snd (get_forecast toFixed numToString fetchPoints fetchDown latitude longitude)) =
           [pointsUrl toFixed latitude longitude, url]"
proof -
  let ?purl = "pointsUrl toFixed latitude longitude"
  have p: "makeNWSRequest fetchPoints ?purl = (Some d, [Fetch ?purl NWS_headers])"
    using makeNWSRequest_responded [of fetchPoints ?purl st d] points by simp
  obtain evs where dn: "makeNWSRequest fetchDown url = (None, evs)"
    using makeNWSRequest_failed [of fetchDown url] down
    by (cases "makeNWSRequest fetchDown url") simp
  have evs: "fetched evs = [url]"
    using makeNWSRequest_fetched [of fetchDown url] dn by simp
  have u: "makeNWSRequest fetchUp url = (Some fd, [Fetch url NWS_headers])"
    using makeNWSRequest_responded [of fetchUp url st' fd] up by simp
  have none: "forecastPeriods None = ([] :: 'a ForecastPeriod list)"
    by (simp add: forecastPeriods_def)
  have 1: "get_forecast toFixed numToString fetchPoints fetchDown latitude longitude =
             (text_result ''No forecast periods available'', Fetch ?purl NWS_headers # evs)"
    using p locator dn none by (simp add: get_forecast_def)
  have 2: "fst (get_forecast toFixed numToString fetchPoints fetchUp latitude longitude) =
             text_result ''No forecast periods available''"
    using p locator u empty by (simp add: get_forecast_def)
  from 1 2 evs show ?thesis by simp
qed

text \<open>A forecast request answered with status 503, against one answered with no periods.\<close>
theorem get_forecast_second_stage_failure_witness:
  "failed (forecast_unreachable ''https://api.weather.gov/gridpoints/MTR/99,105/forecast'' NWS_headers) \<and>
   fst (get_forecast showFixed showDigits points_with_locator forecast_unreachable 38 (- 122)) =
     text_result ''No forecast periods available'' \<and>
   fst (get_forecast showFixed showDigits points_with_locator forecast_no_periods 38 (- 122)) =
     fst (get_forecast showFixed showDigits points_with_locator forecast_unreachable 38 (- 122))"
proof -
  let ?url = "''https://api.weather.gov/gridpoints/MTR/99,105/forecast''"
  let ?d = "\<lparr> points_properties = Some \<lparr> forecast = Some ?url \<rparr> \<rparr>"
  let ?fd = "\<lparr> forecast_properties = Some \<lparr> periods = Some ([] :: int ForecastPeriod list) \<rparr> \<rparr>"
  have points: "points_with_locator (pointsUrl showFixed 38 (- 122)) NWS_headers =
                  Responded True 200 (Some ?d)"
    by (simp add: points_with_locator_def)
  have locator: "forecastLocator (Some ?d) = Some ?url" and ne: "?url \<noteq> []"
    by (simp_all add: forecastLocator_def)
  have down: "failed (forecast_unreachable ?url NWS_headers)"
    by (simp add: failed_def forecast_unreachable_def)
  have up: "forecast_no_periods ?url NWS_headers = Responded True 200 (Some ?fd)"
    by (simp add: forecast_no_periods_def)
  have empty: "forecastPeriods (Some ?fd) = []"
    by (simp add: forecastPeriods_def)
  from get_forecast_second_stage_failure
         [where fetchPoints = points_with_locator and toFixed = showFixed and latitude = 38
            and longitude = "- 122" and numToString = showDigits
            and fetchDown = forecast_unreachable and fetchUp = forecast_no_periods
            and url = ?url and d = ?d and fd = ?fd and st = 200 and st' = 200,
          OF points locator ne down up empty] down
  show ?thesis by blast
qed

text \<open>Every return statement of the three handlers builds its result with one text block.\<close>
lemma text_result_block_types: "map block_type (content (text_result t)) = [''text'']"
  by (simp add: text_result_def)

lemma get_coordinates_text: "\<exists>t. fst (get_coordinates fetch city state) = text_result t"
  by (cases "getCoordinates fetch city state")
     (auto simp add: get_coordinates_def split: option.split)

lemma get_alerts_text: "\<exists>t. fst (get_alerts fetch state) = text_result t"
  by (cases "makeNWSRequest fetch (alertsUrl (toUpperCase state))")
     (auto simp add: get_alerts_def Let_def split: option.split)

lemma get_forecast_text:
  "\<exists>t. fst (get_forecast toFixed numToString fetchPoints fetchForecast latitude longitude) =
         text_result t"
proof (cases "makeNWSRequest fetchPoints (pointsUrl toFixed latitude longitude)")
  case (Pair pointsData evs1)
  show ?thesis
  proof (cases "forecastLocator pointsData")
    case None
    with Pair show ?thesis by (auto simp add: get_forecast_def noForecastUrl_def)
  next
    case (Some url)
    show ?thesis
    proof (cases "url = []")
      case True
      with Pair Some show ?thesis by (auto simp add: get_forecast_def noForecastUrl_def)
    next
      case False
      with Pair Some show ?thesis
        by (cases "makeNWSRequest fetchForecast url") (auto simp add: get_forecast_def Let_def)
    qed
  qed
qed

text \<open>
  Claim C10. Whatever the external services answer, the result of each of the three tools
  has exactly one content block, and its type is \<open>text\<close>.
\<close>
theorem tool_results_one_text_block:
  "map block_type (content (fst (get_coordinates fetchGeo city state))) = [''text''] \<and>
   map block_type (content (fst (get_alerts fetchAlerts state'))) = [''text''] \<and>
   map block_type
     (content (fst (get_forecast toFixed numToString fetchPoints fetchForecast latitude longitude))) =
     [''text'']"
  using get_coordinates_text [of fetchGeo city state] get_alerts_text [of fetchAlerts state']
    get_forecast_text [of toFixed numToString fetchPoints fetchForecast latitude longitude]
  by (auto simp add: text_result_block_types)

subsection \<open>Casing of the state code\<close>









end
